theory Spec2Isabelle
  imports Complex_Main "HOL-Library.Word"
begin

section \<open>Data model\<close>

type_synonym byte = "8 word"

text \<open>
  Python exceptions raised in \<open>octowire.py\<close> and \<open>gpio.py\<close>. The source raises the
  plain \<open>Exception\<close> (with a message) and \<open>ValueError\<close> (with a message) itself;
  \<open>StructError\<close> is \<open>struct.error\<close>, \<open>TypeError\<close> and \<open>AttributeError\<close> come from the
  interpreter, \<open>UnicodeDecodeError\<close> from \<open>bytes.decode\<close>.
\<close>

datatype error =
    Exception string
  | ValueError string
  | StructError
  | TypeError
  | AttributeError
  | UnicodeDecodeError

text \<open>
  The transport (a pyserial \<open>Serial\<close> object) is external to the library. It is modelled
  as an in-memory byte queue, following the transport contract of the specification
  (\<open>write(bytes)\<close>, \<open>read(n)\<close> returning at most \<open>n\<close> bytes and fewer when the timeout
  expires, the count of bytes available, a mutable read timeout):
  \<^item> \<open>in_buf\<close> holds the bytes received and not yet read (\<open>in_waiting\<close> is its length);
  \<open>read(n)\<close> removes and returns its first \<open>n\<close> bytes, or all of it when it is shorter;
  \<^item> \<open>written\<close> is the log of the byte strings passed to \<open>write\<close>, oldest first;
  \<^item> \<open>replies\<close> is the behaviour of the device: the bytes it sends in answer to the
  next write, to the one after it, and so on (no answer once the list is exhausted).
  Neither \<open>read\<close> nor \<open>write\<close> raises, and the sleeps of the source do nothing here.
\<close>

record serial =
  is_open :: bool
  timeout :: "real option"
  in_buf :: "byte list"
  written :: "byte list list"
  replies :: "byte list list"

definition port_write :: "byte list \<Rightarrow> serial \<Rightarrow> serial" where
  "port_write bs p =
     p\<lparr>written := written p @ [bs],
       in_buf := in_buf p @ (case replies p of [] \<Rightarrow> [] | r # rs \<Rightarrow> r),
       replies := tl (replies p)\<rparr>"

definition port_read :: "nat \<Rightarrow> serial \<Rightarrow> byte list \<times> serial" where
  "port_read n p = (take n (in_buf p), p\<lparr>in_buf := drop n (in_buf p)\<rparr>)"

definition in_waiting :: "serial \<Rightarrow> nat" where
  "in_waiting p = length (in_buf p)"

text \<open>
  The \<open>Octowire\<close> object: \<open>serial_instance\<close> is \<open>None\<close> (the constructor's default, which
  is not a \<open>Serial\<close> instance and has none of its attributes) or a port; \<open>logger\<close> is
  the list of the diagnostic messages handed to the logger, oldest first.
\<close>

record octowire =
  serial_instance :: "serial option"
  logger :: "string list"

text \<open>
  Modelled from the spec: \<open>octowire.utils.Logger\<close> is not among the sources. Its
  \<open>handle(message, level)\<close> is the diagnostics output of the library; it appends the
  message to \<open>logger\<close> (every call in these two files passes the level \<open>ERROR\<close>).
\<close>

definition handle :: "string \<Rightarrow> 'a octowire_scheme \<Rightarrow> 'a octowire_scheme" where
  "handle msg self = self\<lparr>logger := logger self @ [msg]\<rparr>"

definition is_serial_instance :: "'a octowire_scheme \<Rightarrow> bool" where
  "is_serial_instance self = (serial_instance self \<noteq> None)"

text \<open>Attribute access on the handle: \<open>self.serial_instance.write\<close>, \<open>.read\<close>, \<open>.in_waiting\<close>.\<close>

definition serial_write ::
  "byte list \<Rightarrow> 'a octowire_scheme \<Rightarrow> (error + unit) \<times> 'a octowire_scheme" where
  "serial_write bs self =
     (case serial_instance self of
        None \<Rightarrow> (Inl AttributeError, self)
      | Some p \<Rightarrow> (Inr (), self\<lparr>serial_instance := Some (port_write bs p)\<rparr>))"

definition serial_read ::
  "nat \<Rightarrow> 'a octowire_scheme \<Rightarrow> (error + byte list) \<times> 'a octowire_scheme" where
  "serial_read n self =
     (case serial_instance self of
        None \<Rightarrow> (Inl AttributeError, self)
      | Some p \<Rightarrow> (Inr (fst (port_read n p)), self\<lparr>serial_instance := Some (snd (port_read n p))\<rparr>))"

definition serial_in_waiting ::
  "'a octowire_scheme \<Rightarrow> (error + nat) \<times> 'a octowire_scheme" where
  "serial_in_waiting self =
     (case serial_instance self of
        None \<Rightarrow> (Inl AttributeError, self)
      | Some p \<Rightarrow> (Inr (in_waiting p), self))"

section \<open>Byte packing\<close>

text \<open>\<open>int.from_bytes(bs, byteorder='little')\<close>, for a byte string of any length.\<close>

fun from_bytes_little :: "byte list \<Rightarrow> nat" where
  "from_bytes_little [] = 0"
| "from_bytes_little (b # bs) = unat b + 256 * from_bytes_little bs"

text \<open>\<open>struct.unpack("<L", bs)[0]\<close>: exactly four bytes, \<open>struct.error\<close> otherwise.\<close>

definition unpack_L :: "byte list \<Rightarrow> error + nat" where
  "unpack_L bs = (if length bs = 4 then Inr (from_bytes_little bs) else Inl StructError)"

text \<open>\<open>struct.pack("<L", n)\<close> and \<open>struct.pack("<H", n)\<close>, for \<open>n\<close> in range.\<close>

definition pack_L :: "nat \<Rightarrow> byte list" where
  "pack_L n = [of_nat (n mod 256), of_nat (n div 256 mod 256),
               of_nat (n div 65536 mod 256), of_nat (n div 16777216 mod 256)]"

definition pack_H :: "nat \<Rightarrow> byte list" where
  "pack_H n = [of_nat (n mod 256), of_nat (n div 256 mod 256)]"

text \<open>\<open>bytes([i])\<close>: one byte, \<open>ValueError\<close> outside \<open>range(0, 256)\<close>.\<close>

definition bytes_of_int :: "int \<Rightarrow> error + byte list" where
  "bytes_of_int i =
     (if 0 \<le> i \<and> i < 256 then Inr [word_of_int i]
      else Inl (ValueError ''bytes must be in range(0, 256)''))"

section \<open>Protocol engine: reading responses\<close>

definition operation_error :: "string \<Rightarrow> error" where
  "operation_error operation_name =
     Exception (''Operation '' @ [CHR 0x27] @ operation_name @ [CHR 0x27] @ '' returned an error.'')"

definition read_response_code ::
  "string \<Rightarrow> bool \<Rightarrow> 'a octowire_scheme \<Rightarrow> (error + unit) \<times> 'a octowire_scheme" where
  "read_response_code operation_name disable_timeout self =
     (case serial_instance self of
        None \<Rightarrow> (Inl AttributeError, self)
      | Some p \<Rightarrow>
          (let tmo = timeout p;
               p1 = (if disable_timeout then p\<lparr>timeout := None\<rparr> else p);
               status = fst (port_read 1 p1);
               p2 = snd (port_read 1 p1);
               p3 = p2\<lparr>timeout := tmo\<rparr>;
               self' = self\<lparr>serial_instance := Some p3\<rparr>
           in if status \<noteq> [0] then (Inl (operation_error operation_name), self')
              else (Inr (), self')))"

definition size_error :: "string \<Rightarrow> error" where
  "size_error operation_name =
     Exception (''Unable to get the size of the data to receive from the Octowire (Operation: ''
                @ operation_name @ '').'')"

definition get_size_read_data ::
  "string \<Rightarrow> 'a octowire_scheme \<Rightarrow> (error + nat) \<times> 'a octowire_scheme" where
  "get_size_read_data operation_name self =
     (case serial_read 4 self of
        (Inl e, self1) \<Rightarrow> (Inl e, self1)
      | (Inr resp, self1) \<Rightarrow>
          if resp = [] then (Inl (size_error operation_name), self1)
          else (unpack_L resp, self1))"

definition no_data_error :: "string \<Rightarrow> error" where
  "no_data_error operation_name =
     Exception (''No data received from the Octowire (Operation: '' @ operation_name @ '').'')"

definition read_chunk ::
  "nat \<Rightarrow> string \<Rightarrow> 'a octowire_scheme \<Rightarrow> (error + byte list) \<times> 'a octowire_scheme" where
  "read_chunk chunk_size operation_name self =
     (case serial_read chunk_size self of
        (Inl e, self1) \<Rightarrow> (Inl e, self1)
      | (Inr chunk, self1) \<Rightarrow>
          if chunk = [] then (Inl (no_data_error operation_name), self1)
          else (Inr chunk, self1))"

text \<open>
  The two statements that \<open>_read_data\<close> runs for every chunk: read the size prefix, then
  read that many bytes. An exception of either propagates.
\<close>

definition read_sized_chunk ::
  "string \<Rightarrow> 'a octowire_scheme \<Rightarrow> (error + nat \<times> byte list) \<times> 'a octowire_scheme" where
  "read_sized_chunk operation_name self =
     (case get_size_read_data operation_name self of
        (Inl e, self1) \<Rightarrow> (Inl e, self1)
      | (Inr chunk_size, self1) \<Rightarrow>
          (case read_chunk chunk_size operation_name self1 of
             (Inl e, self2) \<Rightarrow> (Inl e, self2)
           | (Inr chunk, self2) \<Rightarrow> (Inr (chunk_size, chunk), self2)))"

text \<open>The loop \<open>while expected_size > 0\<close> of \<open>_read_data\<close>.\<close>

function read_data_loop ::
  "string \<Rightarrow> int \<Rightarrow> byte list \<Rightarrow> 'a octowire_scheme
     \<Rightarrow> (error + byte list) \<times> 'a octowire_scheme" where
  "read_data_loop operation_name expected_size data self =
     (if expected_size > 0 then
        (case read_sized_chunk operation_name self of
           (Inl e, self1) \<Rightarrow> (Inl e, self1)
         | (Inr (chunk_size, chunk), self1) \<Rightarrow>
             read_data_loop operation_name (expected_size - int chunk_size) (data @ chunk) self1)
      else (Inr data, self))"
  by pat_completeness auto
termination
proof (relation "measure (\<lambda>(operation_name, expected_size, data, self). nat expected_size)")
  show "wf (measure (\<lambda>(operation_name, expected_size, data, self). nat expected_size))"
    by simp
next
  fix operation_name :: string and expected_size :: int and data :: "byte list"
    and self :: "'a octowire_scheme" and x r self1 xa chunk_size chunk
  assume "0 < expected_size"
    and "(x, self1) = read_sized_chunk operation_name self"
    and "x = Inr xa" and "(chunk_size, chunk) = xa"
  then have got: "read_sized_chunk operation_name self = (Inr (chunk_size, chunk), self1)"
    by simp
  have "0 < chunk_size"
  proof (rule ccontr)
    assume "\<not> 0 < chunk_size"
    then have "chunk_size = 0" by simp
    with got show False
      by (auto simp: read_sized_chunk_def read_chunk_def serial_read_def port_read_def
               split: prod.splits sum.splits option.splits if_splits)
  qed
  with \<open>0 < expected_size\<close>
  show "((operation_name, expected_size - int chunk_size, data @ chunk, self1),
          (operation_name, expected_size, data, self))
        \<in> measure (\<lambda>(operation_name, expected_size, data, self). nat expected_size)"
    by simp
qed

declare read_data_loop.simps [simp del]

definition read_data ::
  "int option \<Rightarrow> string \<Rightarrow> 'a octowire_scheme \<Rightarrow> (error + byte list) \<times> 'a octowire_scheme" where
  "read_data expected_size operation_name self =
     (if expected_size \<noteq> None \<and> expected_size \<noteq> Some 0 then
        read_data_loop operation_name (the expected_size) [] self
      else
        (case read_sized_chunk operation_name self of
           (Inl e, self1) \<Rightarrow> (Inl e, self1)
         | (Inr (chunk_size, chunk), self1) \<Rightarrow> (Inr ([] @ chunk), self1)))"

text \<open>
  The same loop with a budget of iterations: \<open>None\<close> when \<open>fuel\<close> passes through the
  body do not bring the loop to its exit or to an exception.
\<close>

fun read_data_loop_fuel ::
  "nat \<Rightarrow> string \<Rightarrow> int \<Rightarrow> byte list \<Rightarrow> 'a octowire_scheme
     \<Rightarrow> ((error + byte list) \<times> 'a octowire_scheme) option" where
  "read_data_loop_fuel fuel operation_name expected_size data self =
     (if expected_size > 0 then
        (case fuel of
           0 \<Rightarrow> None
         | Suc fuel' \<Rightarrow>
             (case read_sized_chunk operation_name self of
                (Inl e, self1) \<Rightarrow> Some (Inl e, self1)
              | (Inr (chunk_size, chunk), self1) \<Rightarrow>
                  read_data_loop_fuel fuel' operation_name
                    (expected_size - int chunk_size) (data @ chunk) self1))
      else Some (Inr data, self))"

declare read_data_loop_fuel.simps [simp del]

section \<open>Protocol engine: modes, version, connectivity\<close>

text \<open>Sequencing of two statements: an exception of the first one skips the second.\<close>

definition and_then ::
  "('s \<Rightarrow> (error + 'a) \<times> 's) \<Rightarrow> ('a \<Rightarrow> 's \<Rightarrow> (error + 'b) \<times> 's) \<Rightarrow> 's \<Rightarrow> (error + 'b) \<times> 's" where
  "and_then m f s = (case m s of (Inl e, s1) \<Rightarrow> (Inl e, s1) | (Inr x, s1) \<Rightarrow> f x s1)"

definition return :: "'a \<Rightarrow> 's \<Rightarrow> (error + 'a) \<times> 's" where
  "return x s = (Inr x, s)"

text \<open>The frame \<open>b"\x00\x02" + 10 * b"\x00"\<close> that completes the probe byte.\<close>

definition probe_completion :: "byte list" where
  "probe_completion = [0x00, 0x02] @ replicate 10 0x00"

definition detect_current_mode ::
  "'a octowire_scheme \<Rightarrow> (error + string) \<times> 'a octowire_scheme" where
  "detect_current_mode =
     and_then (serial_write [0x0a]) (\<lambda>_.
     and_then serial_in_waiting (\<lambda>waiting.
       if waiting \<noteq> 0 then
         and_then serial_in_waiting (\<lambda>n.
         and_then (serial_read n) (\<lambda>_.
         return ''t''))
       else
         and_then (serial_write probe_completion) (\<lambda>_.
         and_then (read_response_code ''Detect current mode'' False) (\<lambda>_.
         and_then (read_data None ''Detect current mode'') (\<lambda>_.
         return ''b'')))))"

text \<open>\<open>b"binmode\n"\<close>\<close>

definition binmode_opcode :: "byte list" where
  "binmode_opcode = [0x62, 0x69, 0x6e, 0x6d, 0x6f, 0x64, 0x65, 0x0a]"

text \<open>
  The source tests \<open>if self.is_connected:\<close> without calling it: the value is the bound
  method, which is true, so \<open>is_connected\<close> does not run and the branch is always taken.
\<close>

definition ensure_binary_mode ::
  "'a octowire_scheme \<Rightarrow> (error + bool) \<times> 'a octowire_scheme" where
  "ensure_binary_mode =
     and_then detect_current_mode (\<lambda>current_mode.
       if current_mode = ''t'' then
         and_then (serial_write binmode_opcode) (\<lambda>_.
         and_then serial_in_waiting (\<lambda>n.
         and_then (serial_read n) (\<lambda>_.
         and_then detect_current_mode (\<lambda>mode.
           if mode = ''b'' then return True
           else (\<lambda>self.
             (Inr False, handle ''Unable to switch the Octowire to binary mode.'' self))))))
       else if current_mode = ''b'' then return True
       else return False)"

definition octowire_status_is_valid ::
  "'a octowire_scheme \<Rightarrow> (error + bool) \<times> 'a octowire_scheme" where
  "octowire_status_is_valid self =
     (if is_serial_instance self then
        and_then detect_current_mode (\<lambda>octowire_mode. return True) self
      else
        (Inr False,
         handle ''The serial_instance parameter is not a valid Serial instance.'' self))"

text \<open>
  \<open>get_octowire_version\<close> returns a \<open>str\<close> or \<open>None\<close>. The codec \<open>bytes.decode\<close> is
  Python's own and is a parameter here: \<open>decode\<close> gives the decoded string or raises.
\<close>

definition version_opcode :: "byte list" where
  "version_opcode = [0x00, 0x00, 0x02]"

definition get_octowire_version ::
  "(byte list \<Rightarrow> error + string) \<Rightarrow> 'a octowire_scheme
     \<Rightarrow> (error + string option) \<times> 'a octowire_scheme" where
  "get_octowire_version decode =
     and_then octowire_status_is_valid (\<lambda>valid.
       if valid then
         and_then detect_current_mode (\<lambda>mode.
         and_then (if mode = ''t'' then and_then ensure_binary_mode (\<lambda>_. return ())
                   else return ()) (\<lambda>_.
         and_then (serial_write version_opcode) (\<lambda>_.
         and_then (serial_read 1) (\<lambda>status.
           if status = [0x00] then
             and_then (serial_read 4) (\<lambda>size.
               if from_bytes_little size > 0 then
                 (case unpack_L size of
                    Inl e \<Rightarrow> (\<lambda>self. (Inl e, self))
                  | Inr n \<Rightarrow>
                      and_then (serial_read n) (\<lambda>version.
                        (case decode version of
                           Inl e \<Rightarrow> (\<lambda>self. (Inl e, self))
                         | Inr v \<Rightarrow> return (Some v))))
               else (\<lambda>self.
                 (Inr None, handle ''Invalid version size returned by the Octowire.'' self)))
           else (\<lambda>self.
             (Inr None, handle ''Error while trying to get Octowire version.'' self))))))
       else return None)"

text \<open>\<open>needle in haystack\<close> on strings: a contiguous occurrence.\<close>

fun str_in :: "string \<Rightarrow> string \<Rightarrow> bool" where
  "str_in needle [] = (needle = [])"
| "str_in needle (c # cs) = (take (length needle) (c # cs) = needle \<or> str_in needle cs)"

text \<open>
  \<open>"Octowire" in self.get_octowire_version\<close> raises \<open>TypeError\<close> when the version is
  \<open>None\<close>. The message of the last branch formats \<open>type(self.serial_instance)\<close>, which for
  the handle \<open>None\<close> is \<open><class 'NoneType'>\<close>.
\<close>

definition is_connected ::
  "(byte list \<Rightarrow> error + string) \<Rightarrow> 'a octowire_scheme
     \<Rightarrow> (error + bool) \<times> 'a octowire_scheme" where
  "is_connected decode self =
     (case serial_instance self of
        Some p \<Rightarrow>
          if is_open p then
            and_then (get_octowire_version decode) (\<lambda>version.
              case version of
                None \<Rightarrow> (\<lambda>self. (Inl TypeError, self))
              | Some v \<Rightarrow>
                  if str_in ''Octowire'' v then return True
                  else (\<lambda>self. (Inr False, handle ''Unable to get Octowire version...'' self)))
              self
          else
            (Inr False,
             handle ''Serial port is a valid serial instance but no connection was detected.''
               self)
      | None \<Rightarrow>
          (Inr False,
           handle (''<class '' @ [CHR 0x27] @ ''NoneType'' @ [CHR 0x27] @ ''>''
                   @ '' is not a Serial instance.'') self))"

section \<open>GPIO driver\<close>

definition OPCODE :: "byte list" where "OPCODE = [0x08]"
definition OPERATION_OUTPUT :: "byte list" where "OPERATION_OUTPUT = [0x01]"
definition OPERATION_INPUT :: "byte list" where "OPERATION_INPUT = [0x02]"
definition OPERATION_PULLUP :: "byte list" where "OPERATION_PULLUP = [0x03]"
definition OPERATION_PULLDOWN :: "byte list" where "OPERATION_PULLDOWN = [0x04]"
definition OPERATION_DEACTIVATE_PULL :: "byte list" where "OPERATION_DEACTIVATE_PULL = [0x05]"
definition OPERATION_SET_PIN_HIGH :: "byte list" where "OPERATION_SET_PIN_HIGH = [0x06]"
definition OPERATION_SET_PIN_LOW :: "byte list" where "OPERATION_SET_PIN_LOW = [0x07]"
definition OPERATION_READ_PIN :: "byte list" where "OPERATION_READ_PIN = [0x08]"

definition PULL_UP :: "int option" where "PULL_UP = Some 0"
definition PULL_DOWN :: "int option" where "PULL_DOWN = Some 1"
definition PULL_DISABLE :: "int option" where "PULL_DISABLE = None"

text \<open>
  The \<open>GPIO\<close> object extends the \<open>Octowire\<close> object. \<open>gpio_pin\<close> holds what the caller
  passed: an integer or \<open>None\<close>.
\<close>

record gpio = octowire +
  gpio_pin :: "int option"
  direction_status :: "int option"
  pull_status :: "int option"
  pin_status :: int

text \<open>
  \<open>GPIO.__init__\<close>. \<open>not gpio_pin\<close> is true for \<open>None\<close> and for \<open>0\<close>. When the constructor
  raises there is no object: the result is then the exception with the handle and log as
  they are at that point.
\<close>

definition gpio_init :: "serial option \<Rightarrow> int option \<Rightarrow> error \<times> octowire + gpio" where
  "gpio_init serial_instance' gpio_pin' =
     (let self = \<lparr>serial_instance = serial_instance', logger = []\<rparr> in
      if (gpio_pin' = None \<or> gpio_pin' = Some 0) \<and> gpio_pin' \<notin> set [Some 0, Some 15] then
        Inl (ValueError ''gpio_pin parameter should be defined between 0 and 15.'', self)
      else
        (case ensure_binary_mode self of
           (Inl e, self1) \<Rightarrow> Inl (e, self1)
         | (Inr ok, self1) \<Rightarrow>
             if \<not> ok then Inl (ValueError ''Unable to enter binary mode.'', self1)
             else Inr \<lparr>serial_instance = serial_instance self1, logger = logger self1,
                       gpio_pin = gpio_pin', direction_status = None,
                       pull_status = None, pin_status = 0\<rparr>))"

text \<open>
  \<open>_send_operation_code\<close>: the method \<open>self.serial_instance.write\<close> is looked up first,
  then its argument is built (\<open>bytes([self.gpio_pin])\<close> may raise), then it is called.
\<close>

definition send_operation_code ::
  "byte list \<Rightarrow> string \<Rightarrow> gpio \<Rightarrow> (error + unit) \<times> gpio" where
  "send_operation_code operation_code operation_name self =
     (let args_size = pack_H 2 in
      case serial_instance self of
        None \<Rightarrow> (Inl AttributeError, self)
      | Some p \<Rightarrow>
          (case gpio_pin self of
             None \<Rightarrow> (Inl TypeError, self)
           | Some pin \<Rightarrow>
               (case bytes_of_int pin of
                  Inl e \<Rightarrow> (Inl e, self)
                | Inr pin_byte \<Rightarrow>
                    and_then (serial_write (args_size @ OPCODE @ pin_byte @ operation_code)) (\<lambda>_.
                    read_response_code operation_name False) self)))"

definition direction_setter :: "int \<Rightarrow> gpio \<Rightarrow> (error + unit) \<times> gpio" where
  "direction_setter direction self =
     (if direction \<notin> set [0, 1] then
        (Inl (ValueError
           ''Invalid pin direction, the value should be 0 for output or 1 for input.''), self)
      else if direction = 0 then
        and_then (send_operation_code OPERATION_OUTPUT ''set GPIO pin as output'') (\<lambda>_ self.
          (Inr (), self\<lparr>direction_status := Some 1\<rparr>)) self
      else
        and_then (send_operation_code OPERATION_INPUT ''set GPIO pin as input'') (\<lambda>_ self.
          (Inr (), self\<lparr>direction_status := Some 0\<rparr>)) self)"

text \<open>The three tests of the \<open>pull\<close> setter are separate \<open>if\<close> statements, run in order.\<close>

definition pull_setter :: "int option \<Rightarrow> gpio \<Rightarrow> (error + unit) \<times> gpio" where
  "pull_setter v self =
     (if v \<notin> set [PULL_UP, PULL_DOWN, PULL_DISABLE] then
        (Inl (ValueError
           (''Invalid pull value, the value should be 0 for pull-up,''
            @ '' 1 for pull-down or None for pull disabled.'')), self)
      else
        and_then
          (if v = None then
             and_then (send_operation_code OPERATION_DEACTIVATE_PULL ''GPIO pull disable'')
               (\<lambda>_ self. (Inr (), self\<lparr>pull_status := None\<rparr>))
           else return ()) (\<lambda>_.
        and_then
          (if v = Some 0 then
             and_then (send_operation_code OPERATION_PULLUP ''GPIO set pull-up'')
               (\<lambda>_ self. (Inr (), self\<lparr>pull_status := Some 0\<rparr>))
           else return ()) (\<lambda>_.
          if v = Some 1 then
            and_then (send_operation_code OPERATION_PULLDOWN ''GPIO set pull-down'')
              (\<lambda>_ self. (Inr (), self\<lparr>pull_status := Some 1\<rparr>))
          else return ())) self)"

definition set_output_pin_high :: "gpio \<Rightarrow> (error + unit) \<times> gpio" where
  "set_output_pin_high =
     and_then (send_operation_code OPERATION_SET_PIN_HIGH ''Set GPIO pin to high'') (\<lambda>_ self.
       (Inr (), self\<lparr>pin_status := 1\<rparr>))"

definition set_output_pin_low :: "gpio \<Rightarrow> (error + unit) \<times> gpio" where
  "set_output_pin_low =
     and_then (send_operation_code OPERATION_SET_PIN_LOW ''Set GPIO pin to low'') (\<lambda>_ self.
       (Inr (), self\<lparr>pin_status := 0\<rparr>))"

definition status_setter :: "int \<Rightarrow> gpio \<Rightarrow> (error + unit) \<times> gpio" where
  "status_setter v self =
     (if v \<notin> set [0, 1] then
        (Inl (ValueError
           ''Invalid status value, the value should be 0 for low or 1 for high.''), self)
      else if v = 0 then set_output_pin_low self
      else if v = 1 then set_output_pin_high self
      else (Inr (), self))"

definition toggle :: "gpio \<Rightarrow> (error + unit) \<times> gpio" where
  "toggle self = status_setter (if pin_status self = 0 then 1 else 0) self"

text \<open>\<open>GPIO.read\<close> returns what \<open>self.serial_instance.read(1)\<close> returns.\<close>

definition read :: "gpio \<Rightarrow> (error + byte list) \<times> gpio" where
  "read =
     and_then (send_operation_code OPERATION_READ_PIN ''GPIO read input pin'') (\<lambda>_.
     serial_read 1)"

section \<open>Wire format and test transports\<close>

text \<open>
  A response payload on the wire: every chunk is its length as four little-endian bytes
  followed by its bytes.
\<close>

definition encode_chunks :: "byte list list \<Rightarrow> byte list" where
  "encode_chunks cs = concat (map (\<lambda>c. pack_L (length c) @ c) cs)"

text \<open>
  What the reads that follow the next write find in the receive buffer: the bytes still
  waiting, then the device's answer to that write.
\<close>

definition response :: "serial \<Rightarrow> byte list" where
  "response p = in_buf p @ (case replies p of [] \<Rightarrow> [] | r # rs \<Rightarrow> r)"

text \<open>The three cached attributes of the driver.\<close>

definition cache :: "gpio \<Rightarrow> int option \<times> int option \<times> int" where
  "cache self = (direction_status self, pull_status self, pin_status self)"

text \<open>
  In-memory transports for concrete runs: an open port with the given receive buffer and
  device answers, an engine and a driver on such a port. \<open>binary_replies\<close> is a device in
  Binary mode answering one mode probe: nothing to the probe byte, then status \<open>0x00\<close> and
  one chunk of one byte to the completing frame.
\<close>

definition mock_port :: "byte list \<Rightarrow> byte list list \<Rightarrow> serial" where
  "mock_port buf rs = \<lparr>is_open = True, timeout = Some 1, in_buf = buf, written = [], replies = rs\<rparr>"

definition mock_octowire :: "byte list \<Rightarrow> byte list list \<Rightarrow> octowire" where
  "mock_octowire buf rs = \<lparr>serial_instance = Some (mock_port buf rs), logger = []\<rparr>"

definition mock_gpio :: "int \<Rightarrow> byte list \<Rightarrow> byte list list \<Rightarrow> gpio" where
  "mock_gpio pin buf rs =
     \<lparr>serial_instance = Some (mock_port buf rs), logger = [], gpio_pin = Some pin,
      direction_status = None, pull_status = None, pin_status = 0\<rparr>"

definition binary_replies :: "byte list list" where
  "binary_replies = [[], [0x00, 0x01, 0x00, 0x00, 0x00, 0x41]]"

section \<open>Packing and reading chunks\<close>

lemma from_bytes_pack_L:
  assumes "n < 2 ^ 32"
  shows "from_bytes_little (pack_L n) = n"
proof -
  have u: "\<And>k::nat. unat (of_nat (k mod 256) :: byte) = k mod 256"
    by (simp add: unat_of_nat)
  have "from_bytes_little (pack_L n)
      = n mod 256 + 256 * (n div 256 mod 256 + 256 * (n div 65536 mod 256 + 256 * (n div 16777216 mod 256)))"
    unfolding pack_L_def by (simp add: u)
  also have "\<dots> = n"
  proof -
    have a: "n div 65536 = n div 256 div 256" and b: "n div 16777216 = n div 256 div 256 div 256"
      by (simp_all add: div_mult2_eq[symmetric])
    have c: "n div 256 div 256 div 256 mod 256 = n div 256 div 256 div 256"
      using assms by (simp add: div_mult2_eq[symmetric]) 
    show ?thesis unfolding a b c
      by (simp only: mod_mult_div_eq)
  qed
  finally show ?thesis .
qed

lemma unpack_pack_L: "n < 2 ^ 32 \<Longrightarrow> unpack_L (pack_L n) = Inr n"
  by (simp add: unpack_L_def from_bytes_pack_L) (simp add: pack_L_def)

lemma length_pack_L: "length (pack_L n) = 4"
  by (simp add: pack_L_def)

lemma get_size_read_data_packed:
  assumes "serial_instance self = Some p" and "in_buf p = pack_L n @ rest" and "n < 2 ^ 32"
  shows "get_size_read_data operation_name self
           = (Inr n, self\<lparr>serial_instance := Some (p\<lparr>in_buf := rest\<rparr>)\<rparr>)"
proof -
  have "pack_L n \<noteq> []" by (simp add: pack_L_def)
  then show ?thesis
    using assms
    by (simp add: get_size_read_data_def serial_read_def port_read_def
          length_pack_L unpack_pack_L)
qed

lemma read_chunk_available:
  assumes "serial_instance self = Some p" and "in_buf p = c @ rest" and "c \<noteq> []"
  shows "read_chunk (length c) operation_name self
           = (Inr c, self\<lparr>serial_instance := Some (p\<lparr>in_buf := rest\<rparr>)\<rparr>)"
  using assms by (simp add: read_chunk_def serial_read_def port_read_def)

lemma read_sized_chunk_encoded:
  assumes "serial_instance self = Some p" and "in_buf p = pack_L (length c) @ c @ rest"
    and "c \<noteq> []" and "length c < 2 ^ 32"
  shows "read_sized_chunk operation_name self
           = (Inr (length c, c), self\<lparr>serial_instance := Some (p\<lparr>in_buf := rest\<rparr>)\<rparr>)"
proof -
  let ?self1 = "self\<lparr>serial_instance := Some (p\<lparr>in_buf := c @ rest\<rparr>)\<rparr>"
  have 1: "get_size_read_data operation_name self = (Inr (length c), ?self1)"
    using assms by (intro get_size_read_data_packed) auto
  have 2: "read_chunk (length c) operation_name ?self1
             = (Inr c, ?self1\<lparr>serial_instance := Some (p\<lparr>in_buf := c @ rest, in_buf := rest\<rparr>)\<rparr>)"
    using assms by (intro read_chunk_available) auto
  show ?thesis
    by (simp add: read_sized_chunk_def 1 2)
qed

lemma read_chunk_nonempty:
  assumes "read_chunk chunk_size operation_name self = (Inr chunk, self')"
  shows "0 < chunk_size \<and> chunk \<noteq> []"
proof -
  have "chunk \<noteq> []"
    using assms
    by (auto simp: read_chunk_def serial_read_def split: option.splits if_splits)
  moreover have "0 < chunk_size"
  proof (rule ccontr)
    assume "\<not> 0 < chunk_size"
    then have "chunk_size = 0" by simp
    with assms show False
      by (auto simp: read_chunk_def serial_read_def port_read_def split: option.splits if_splits)
  qed
  ultimately show ?thesis by simp
qed

lemma read_sized_chunk_nonempty:
  assumes "read_sized_chunk operation_name self = (Inr (chunk_size, chunk), self')"
  shows "0 < chunk_size \<and> chunk \<noteq> []"
  using assms unfolding read_sized_chunk_def
  by (auto split: prod.splits sum.splits dest: read_chunk_nonempty)

section \<open>The chunked payload reader\<close>

lemma read_data_loop_chunks:
  assumes "serial_instance self = Some p"
    and "in_buf p = encode_chunks cs @ rest"
    and "cs \<noteq> []"
    and "\<forall>c \<in> set cs. c \<noteq> [] \<and> length c < 2 ^ 32"
    and "int (length (concat (butlast cs))) < expected_size"
    and "expected_size \<le> int (length (concat cs))"
  shows "read_data_loop operation_name expected_size data self
           = (Inr (data @ concat cs), self\<lparr>serial_instance := Some (p\<lparr>in_buf := rest\<rparr>)\<rparr>)"
  using assms
proof (induction cs arbitrary: expected_size data self p)
  case Nil
  then show ?case by simp
next
  case (Cons c cs)
  let ?self1 = "self\<lparr>serial_instance := Some (p\<lparr>in_buf := encode_chunks cs @ rest\<rparr>)\<rparr>"
  have pos: "0 < expected_size"
    using Cons.prems(5) by linarith
  have "in_buf p = pack_L (length c) @ c @ (encode_chunks cs @ rest)"
    using Cons.prems(2) by (simp add: encode_chunks_def)
  then have step: "read_sized_chunk operation_name self = (Inr (length c, c), ?self1)"
    using Cons.prems(1,4) by (intro read_sized_chunk_encoded) auto
  show ?case
  proof (cases "cs = []")
    case True
    then have "expected_size - int (length c) \<le> 0"
      using Cons.prems(6) by simp
    then show ?thesis
      using pos step True
      by (simp add: read_data_loop.simps[of _ expected_size] read_data_loop.simps[of _ "expected_size - int (length c)"]
            encode_chunks_def)
  next
    case False
    have "read_data_loop operation_name (expected_size - int (length c)) (data @ c) ?self1
            = (Inr ((data @ c) @ concat cs),
               ?self1\<lparr>serial_instance := Some (p\<lparr>in_buf := encode_chunks cs @ rest, in_buf := rest\<rparr>)\<rparr>)"
    proof (rule Cons.IH)
      show "int (length (concat (butlast cs))) < expected_size - int (length c)"
        using Cons.prems(5) False by simp
      show "expected_size - int (length c) \<le> int (length (concat cs))"
        using Cons.prems(6) by simp
    qed (use Cons.prems False in auto)
    then show ?thesis
      using pos step by (simp add: read_data_loop.simps[of _ expected_size])
  qed
qed

text \<open>
  C1. With a positive \<open>expected_size\<close> and a stream of chunks on the wire, each a 4-byte
  little-endian size followed by that many (at least one) bytes, \<open>_read_data\<close> reads chunk
  after chunk while the remaining expected size is positive and returns the concatenation
  of the data of all the chunks it read, leaving what follows them in the buffer. The
  chunks read are those up to the first one that brings the remainder to zero or below:
  the last chunk may overshoot \<open>expected_size\<close>, and the whole of it is returned, without
  truncation and without an error.
\<close>

theorem read_data_concatenates_chunks:
  assumes "serial_instance self = Some p"
    and "in_buf p = encode_chunks cs @ rest"
    and "cs \<noteq> []"
    and "\<forall>c \<in> set cs. c \<noteq> [] \<and> length c < 2 ^ 32"
    and "int (length (concat (butlast cs))) < expected_size"
    and "expected_size \<le> int (length (concat cs))"
  shows "read_data (Some expected_size) operation_name self
           = (Inr (concat cs), self\<lparr>serial_instance := Some (p\<lparr>in_buf := rest\<rparr>)\<rparr>)"
proof -
  have "0 < expected_size" using assms(5) by linarith
  then show ?thesis
    using read_data_loop_chunks[OF assms, of operation_name "[]"]
    by (simp add: read_data_def)
qed

text \<open>
  Two runs with \<open>expected_size = 10\<close>: chunks of 4 and 6 bytes give the 10 bytes; chunks
  of 4 and 8 bytes give all 12 bytes, and the byte after the second chunk stays unread.
\<close>

theorem read_data_concatenates_chunks_witness:
  "read_data (Some 10) ''op''
     (mock_octowire ([4, 0, 0, 0, 1, 2, 3, 4] @ [6, 0, 0, 0, 5, 6, 7, 8, 9, 10]) [])
     = (Inr [1, 2, 3, 4, 5, 6, 7, 8, 9, 10], mock_octowire [] [])
   \<and> read_data (Some 10) ''op''
       (mock_octowire ([4, 0, 0, 0, 1, 2, 3, 4] @ [8, 0, 0, 0, 5, 6, 7, 8, 9, 10, 11, 12] @ [13]) [])
     = (Inr [1, 2, 3, 4, 5, 6, 7, 8, 9, 10, 11, 12], mock_octowire [13] [])"
  using read_data_concatenates_chunks
          [of "mock_octowire ([4, 0, 0, 0, 1, 2, 3, 4] @ [6, 0, 0, 0, 5, 6, 7, 8, 9, 10]) []"
              "mock_port ([4, 0, 0, 0, 1, 2, 3, 4] @ [6, 0, 0, 0, 5, 6, 7, 8, 9, 10]) []"
              "[[1, 2, 3, 4], [5, 6, 7, 8, 9, 10]]" "[]" 10 "''op''"]
        read_data_concatenates_chunks
          [of "mock_octowire ([4, 0, 0, 0, 1, 2, 3, 4] @ [8, 0, 0, 0, 5, 6, 7, 8, 9, 10, 11, 12] @ [13]) []"
              "mock_port ([4, 0, 0, 0, 1, 2, 3, 4] @ [8, 0, 0, 0, 5, 6, 7, 8, 9, 10, 11, 12] @ [13]) []"
              "[[1, 2, 3, 4], [5, 6, 7, 8, 9, 10, 11, 12]]" "[13]" 10 "''op''"]
  by (simp add: mock_octowire_def mock_port_def encode_chunks_def pack_L_def)

text \<open>
  A read that returns no bytes makes \<open>_read_data\<close> raise, with or without an expected size:
  the size prefix first, then the chunk.
\<close>

lemma read_data_raises_on_empty_read:
  assumes "serial_instance self = Some p"
  shows "in_buf p = [] \<Longrightarrow>
           read_data None operation_name self = (Inl (size_error operation_name), self)"
    and "in_buf p = [] \<Longrightarrow> 0 < expected_size \<Longrightarrow>
           read_data (Some expected_size) operation_name self
             = (Inl (size_error operation_name), self)"
    and "in_buf p = pack_L n \<Longrightarrow> n < 2 ^ 32 \<Longrightarrow>
           fst (read_data None operation_name self) = Inl (no_data_error operation_name)"
    and "in_buf p = pack_L n \<Longrightarrow> n < 2 ^ 32 \<Longrightarrow> 0 < expected_size \<Longrightarrow>
           fst (read_data (Some expected_size) operation_name self)
             = Inl (no_data_error operation_name)"
proof -
  have self: "self\<lparr>serial_instance := Some p\<rparr> = self"
    using assms by simp
  have size: "in_buf p = [] \<Longrightarrow>
                read_sized_chunk operation_name self = (Inl (size_error operation_name), self)"
    using assms self
    by (simp add: read_sized_chunk_def get_size_read_data_def serial_read_def port_read_def)
  have data: "in_buf p = pack_L n \<Longrightarrow> n < 2 ^ 32 \<Longrightarrow>
                fst (read_sized_chunk operation_name self) = Inl (no_data_error operation_name)"
    using assms get_size_read_data_packed[of self p n "[]" operation_name]
    by (simp add: read_sized_chunk_def read_chunk_def serial_read_def port_read_def)
  show "in_buf p = [] \<Longrightarrow>
          read_data None operation_name self = (Inl (size_error operation_name), self)"
    by (simp add: read_data_def size)
  show "in_buf p = [] \<Longrightarrow> 0 < expected_size \<Longrightarrow>
          read_data (Some expected_size) operation_name self
            = (Inl (size_error operation_name), self)"
    by (simp add: read_data_def read_data_loop.simps[of _ expected_size] size)
  show "in_buf p = pack_L n \<Longrightarrow> n < 2 ^ 32 \<Longrightarrow>
          fst (read_data None operation_name self) = Inl (no_data_error operation_name)"
    using data by (auto simp: read_data_def split: prod.splits sum.splits)
  show "in_buf p = pack_L n \<Longrightarrow> n < 2 ^ 32 \<Longrightarrow> 0 < expected_size \<Longrightarrow>
          fst (read_data (Some expected_size) operation_name self)
            = Inl (no_data_error operation_name)"
    using data
    by (auto simp: read_data_def read_data_loop.simps[of _ expected_size]
             split: prod.splits sum.splits)
qed

lemma read_data_loop_fuel_enough:
  "nat expected_size \<le> fuel \<Longrightarrow>
   read_data_loop_fuel fuel operation_name expected_size data self
     = Some (read_data_loop operation_name expected_size data self)"
proof (induction operation_name expected_size data self arbitrary: fuel
       rule: read_data_loop.induct)
  case (1 operation_name expected_size data self)
  show ?case
  proof (cases "0 < expected_size")
    case False
    then show ?thesis
      by (simp add: read_data_loop.simps[of _ expected_size]
            read_data_loop_fuel.simps[of _ _ expected_size])
  next
    case True
    with "1.prems" obtain fuel' where fuel: "fuel = Suc fuel'"
      by (cases fuel) auto
    obtain x self1 where res: "read_sized_chunk operation_name self = (x, self1)"
      by (cases "read_sized_chunk operation_name self")
    show ?thesis
    proof (cases x)
      case (Inl e)
      with True fuel res show ?thesis
        by (simp add: read_data_loop.simps[of _ expected_size]
              read_data_loop_fuel.simps[of _ _ expected_size])
    next
      case (Inr xa)
      obtain chunk_size chunk where xa: "xa = (chunk_size, chunk)"
        by (cases xa)
      have "0 < chunk_size"
        using read_sized_chunk_nonempty res Inr xa by blast
      then have "nat (expected_size - int chunk_size) \<le> fuel'"
        using "1.prems" fuel True by linarith
      then have "read_data_loop_fuel fuel' operation_name (expected_size - int chunk_size)
                   (data @ chunk) self1
                 = Some (read_data_loop operation_name (expected_size - int chunk_size)
                          (data @ chunk) self1)"
        using "1.IH"[OF True res[symmetric] Inr xa[symmetric]] by blast
      with True fuel res Inr xa show ?thesis
        by (simp add: read_data_loop.simps[of _ expected_size]
              read_data_loop_fuel.simps[of _ _ expected_size])
    qed
  qed
qed

text \<open>
  C10. The loop of \<open>_read_data\<close> terminates: \<open>read_data_loop\<close> is a total function, its
  recursion justified by the decrease of \<open>expected_size\<close>. A chunk of declared size 0
  always raises; a pass through the body that does not raise has read a non-empty chunk
  of declared size at least 1, so the remaining expected size strictly decreases; and
  \<open>expected_size\<close> passes through the body are always enough for the loop to finish, with
  the result of the loop.
\<close>

theorem read_data_loop_terminates:
  "isl (fst (read_chunk 0 operation_name self))
   \<and> (\<forall>chunk_size chunk self'.
         read_sized_chunk operation_name self = (Inr (chunk_size, chunk), self')
           \<longrightarrow> 1 \<le> chunk_size \<and> chunk \<noteq> []
               \<and> expected_size - int chunk_size < expected_size)
   \<and> read_data_loop_fuel (nat expected_size) operation_name expected_size data self
       = Some (read_data_loop operation_name expected_size data self)"
proof (intro conjI allI impI)
  show "isl (fst (read_chunk 0 operation_name self))"
    by (simp add: read_chunk_def serial_read_def port_read_def split: option.splits)
next
  fix chunk_size chunk self'
  assume a: "read_sized_chunk operation_name self = (Inr (chunk_size, chunk), self')"
  from read_sized_chunk_nonempty[OF a]
  show "1 \<le> chunk_size" "chunk \<noteq> []" "expected_size - int chunk_size < expected_size"
    by simp_all
next
  show "read_data_loop_fuel (nat expected_size) operation_name expected_size data self
          = Some (read_data_loop operation_name expected_size data self)"
    by (rule read_data_loop_fuel_enough) simp
qed

theorem read_data_loop_terminates_witness:
  "read_sized_chunk ''op'' (mock_octowire [1, 0, 0, 0, 7] [])
     = (Inr (1, [7]), mock_octowire [] [])
   \<and> read_data_loop ''op'' 1 [] (mock_octowire [1, 0, 0, 0, 7] [])
     = (Inr [7], mock_octowire [] [])"
proof -
  have chunk: "read_sized_chunk ''op'' (mock_octowire [1, 0, 0, 0, 7] [])
                 = (Inr (1, [7]), mock_octowire [] [])"
    by (simp add: read_sized_chunk_def get_size_read_data_def read_chunk_def serial_read_def
          port_read_def unpack_L_def mock_octowire_def mock_port_def)
  have "read_data_loop_fuel (nat 1) ''op'' 1 [] (mock_octowire [1, 0, 0, 0, 7] [])
          = Some (Inr [7], mock_octowire [] [])"
    by (simp add: read_data_loop_fuel.simps[of _ _ 1] read_data_loop_fuel.simps[of _ _ 0] chunk)
  with chunk show ?thesis
    using read_data_loop_terminates[of "''op''" "mock_octowire [1, 0, 0, 0, 7] []" 1 "[]"]
    by simp
qed

section \<open>The response status reader\<close>

text \<open>
  C9. \<open>_read_response_code\<close> leaves the transport with the read timeout it had on entry,
  for every timeout value and both values of \<open>disable_timeout\<close>, whether it returns (the
  status byte is \<open>0x00\<close>) or raises (any other read): the only change to the port is that
  the byte read is gone from the receive buffer.
\<close>

theorem read_response_code_restores_timeout:
  assumes "serial_instance self = Some p"
  shows "read_response_code operation_name disable_timeout self
           = (if take 1 (in_buf p) = [0] then Inr () else Inl (operation_error operation_name),
              self\<lparr>serial_instance := Some (p\<lparr>in_buf := drop 1 (in_buf p)\<rparr>)\<rparr>)
         \<and> map_option timeout
              (serial_instance (snd (read_response_code operation_name disable_timeout self)))
             = Some (timeout p)"
  using assms
  by (simp add: read_response_code_def port_read_def Let_def)

theorem read_response_code_restores_timeout_witness:
  "read_response_code ''op'' True (mock_octowire [1, 5] [])
     = (Inl (operation_error ''op''), mock_octowire [5] [])
   \<and> read_response_code ''op'' True (mock_octowire [0, 5] [])
     = (Inr (), mock_octowire [5] [])"
  using read_response_code_restores_timeout
          [of "mock_octowire [1, 5] []" "mock_port [1, 5] []" "''op''" True]
        read_response_code_restores_timeout
          [of "mock_octowire [0, 5] []" "mock_port [0, 5] []" "''op''" True]
  by (simp add: mock_octowire_def mock_port_def)

section \<open>GPIO command frames\<close>

lemma send_operation_code_eq:
  assumes "serial_instance self = Some p" and "gpio_pin self = Some pin"
    and "0 \<le> pin" and "pin < 256"
  shows "send_operation_code operation_code operation_name self
           = (if take 1 (response p) = [0] then Inr () else Inl (operation_error operation_name),
              self\<lparr>serial_instance :=
                Some ((port_write ([0x02, 0x00, 0x08, word_of_int pin] @ operation_code) p)
                        \<lparr>in_buf := drop 1 (response p)\<rparr>)\<rparr>)"
  using assms
  by (simp add: send_operation_code_def bytes_of_int_def and_then_def serial_write_def
        read_response_code_def port_read_def port_write_def response_def pack_H_def OPCODE_def
        Let_def)

lemma send_operation_code_failure:
  assumes "serial_instance self = Some p" and "gpio_pin self = Some pin"
    and "0 \<le> pin" and "pin < 256" and "response p = b # rest" and "b \<noteq> 0"
  shows "send_operation_code operation_code operation_name self
           = (Inl (operation_error operation_name),
              self\<lparr>serial_instance :=
                Some ((port_write ([0x02, 0x00, 0x08, word_of_int pin] @ operation_code) p)
                        \<lparr>in_buf := rest\<rparr>)\<rparr>)"
  using assms(5,6) by (simp add: send_operation_code_eq[OF assms(1-4)])

lemma send_operation_code_success:
  assumes "serial_instance self = Some p" and "gpio_pin self = Some pin"
    and "0 \<le> pin" and "pin < 256" and "response p = 0 # rest"
  shows "send_operation_code operation_code operation_name self
           = (Inr (),
              self\<lparr>serial_instance :=
                Some ((port_write ([0x02, 0x00, 0x08, word_of_int pin] @ operation_code) p)
                        \<lparr>in_buf := rest\<rparr>)\<rparr>)"
  using assms(5) by (simp add: send_operation_code_eq[OF assms(1-4)])

text \<open>
  C3, as the code has it. For a pin id in \<open>0..255\<close> and every one-byte operation code,
  \<open>_send_operation_code\<close> makes exactly one write, of the five bytes \<open>02 00 08 pin op\<close>:
  the 16-bit little-endian argument size 2, the opcode \<open>0x08\<close>, and a 2-byte argument body
  which is the pin id followed by the operation code. This holds whatever status the device
  answers.
\<close>

theorem send_operation_code_frame:
  assumes "serial_instance self = Some p" and "gpio_pin self = Some pin"
    and "0 \<le> pin" and "pin < 256"
  shows "map_option written
           (serial_instance (snd (send_operation_code [operation] operation_name self)))
         = Some (written p @ [[0x02, 0x00, 0x08, word_of_int pin, operation]])"
  by (simp add: send_operation_code_eq[OF assms] port_write_def)

theorem send_operation_code_frame_witness:
  "map_option written
     (serial_instance (snd (send_operation_code OPERATION_READ_PIN ''GPIO read input pin''
                              (mock_gpio 15 [] [[0x00, 0x01]]))))
   = Some [[0x02, 0x00, 0x08, 0x0f, 0x08]]"
  using send_operation_code_frame
          [of "mock_gpio 15 [] [[0x00, 0x01]]" "mock_port [] [[0x00, 0x01]]" 15 8
              "''GPIO read input pin''"]
  by (simp add: mock_gpio_def mock_port_def OPERATION_READ_PIN_def)

text \<open>
  C3 as stated puts the operation code before the pin id. For pin 3 and the operation
  "set output" (\<open>0x01\<close>) the bytes written are \<open>02 00 08 03 01\<close>: the argument body is
  \<open>03 01\<close>, neither the operation code followed by the pin id nor the opcode \<open>0x08\<close>
  followed by the pin id.
\<close>

theorem send_operation_code_frame_counterexample:
  "map_option written
     (serial_instance (snd (send_operation_code OPERATION_OUTPUT ''set GPIO pin as output''
                              (mock_gpio 3 [] [[0x00]]))))
   = Some [[0x02, 0x00, 0x08, 0x03, 0x01]]
   \<and> drop 3 [0x02, 0x00, 0x08, 0x03, 0x01] \<noteq> OPERATION_OUTPUT @ [0x03 :: byte]
   \<and> drop 3 [0x02, 0x00, 0x08, 0x03, 0x01] \<noteq> OPCODE @ [0x03 :: byte]"
  by (simp add: send_operation_code_def bytes_of_int_def and_then_def serial_write_def
        read_response_code_def port_read_def port_write_def pack_H_def OPCODE_def
        OPERATION_OUTPUT_def mock_gpio_def mock_port_def Let_def)

section \<open>GPIO commands and the cached attributes\<close>

text \<open>
  C2. When the status byte read after the command frame is not zero, each of the
  commands of the driver (the direction, pull and status setters with each of their legal
  values, and toggle) raises the exception whose message carries the name of the
  operation, \<open>Operation '<name>' returned an error.\<close>, and leaves \<open>direction_status\<close>,
  \<open>pull_status\<close> and \<open>pin_status\<close> as they were.
\<close>

theorem gpio_command_failure:
  assumes "serial_instance self = Some p" and "gpio_pin self = Some pin"
    and "0 \<le> pin" and "pin < 256" and "response p = b # rest" and "b \<noteq> 0"
  shows "fst (direction_setter 0 self)
           = Inl (Exception ''Operation 'set GPIO pin as output' returned an error.'')
         \<and> cache (snd (direction_setter 0 self)) = cache self
       \<and> fst (direction_setter 1 self)
           = Inl (Exception ''Operation 'set GPIO pin as input' returned an error.'')
         \<and> cache (snd (direction_setter 1 self)) = cache self
       \<and> fst (pull_setter None self)
           = Inl (Exception ''Operation 'GPIO pull disable' returned an error.'')
         \<and> cache (snd (pull_setter None self)) = cache self
       \<and> fst (pull_setter (Some 0) self)
           = Inl (Exception ''Operation 'GPIO set pull-up' returned an error.'')
         \<and> cache (snd (pull_setter (Some 0) self)) = cache self
       \<and> fst (pull_setter (Some 1) self)
           = Inl (Exception ''Operation 'GPIO set pull-down' returned an error.'')
         \<and> cache (snd (pull_setter (Some 1) self)) = cache self
       \<and> fst (status_setter 0 self)
           = Inl (Exception ''Operation 'Set GPIO pin to low' returned an error.'')
         \<and> cache (snd (status_setter 0 self)) = cache self
       \<and> fst (status_setter 1 self)
           = Inl (Exception ''Operation 'Set GPIO pin to high' returned an error.'')
         \<and> cache (snd (status_setter 1 self)) = cache self
       \<and> fst (toggle self)
           = Inl (Exception
                    (if pin_status self = 0
                     then ''Operation 'Set GPIO pin to high' returned an error.''
                     else ''Operation 'Set GPIO pin to low' returned an error.''))
         \<and> cache (snd (toggle self)) = cache self"
proof -
  note fail = send_operation_code_failure[OF assms]
  have d0: "fst (direction_setter 0 self)
      = Inl (Exception ''Operation 'set GPIO pin as output' returned an error.'')
            \<and> cache (snd (direction_setter 0 self)) = cache self"
    by (simp add: direction_setter_def and_then_def fail cache_def operation_error_def)
  have d1: "fst (direction_setter 1 self)
      = Inl (Exception ''Operation 'set GPIO pin as input' returned an error.'')
            \<and> cache (snd (direction_setter 1 self)) = cache self"
    by (simp add: direction_setter_def and_then_def fail cache_def operation_error_def)
  have pn: "fst (pull_setter None self)
      = Inl (Exception ''Operation 'GPIO pull disable' returned an error.'')
            \<and> cache (snd (pull_setter None self)) = cache self"
    by (simp add: pull_setter_def and_then_def fail cache_def operation_error_def
          PULL_UP_def PULL_DOWN_def PULL_DISABLE_def)
  have p0: "fst (pull_setter (Some 0) self)
      = Inl (Exception ''Operation 'GPIO set pull-up' returned an error.'')
            \<and> cache (snd (pull_setter (Some 0) self)) = cache self"
    by (simp add: pull_setter_def and_then_def return_def fail cache_def operation_error_def
          PULL_UP_def PULL_DOWN_def PULL_DISABLE_def)
  have p1: "fst (pull_setter (Some 1) self)
      = Inl (Exception ''Operation 'GPIO set pull-down' returned an error.'')
            \<and> cache (snd (pull_setter (Some 1) self)) = cache self"
    by (simp add: pull_setter_def and_then_def return_def fail cache_def operation_error_def
          PULL_UP_def PULL_DOWN_def PULL_DISABLE_def)
  have s0: "fst (status_setter 0 self)
      = Inl (Exception ''Operation 'Set GPIO pin to low' returned an error.'')
            \<and> cache (snd (status_setter 0 self)) = cache self"
    by (simp add: status_setter_def set_output_pin_low_def and_then_def fail cache_def operation_error_def)
  have s1: "fst (status_setter 1 self)
      = Inl (Exception ''Operation 'Set GPIO pin to high' returned an error.'')
            \<and> cache (snd (status_setter 1 self)) = cache self"
    by (simp add: status_setter_def set_output_pin_high_def and_then_def fail cache_def operation_error_def)
  have t: "fst (toggle self)
             = Inl (Exception
                    (if pin_status self = 0
                     then ''Operation 'Set GPIO pin to high' returned an error.''
                     else ''Operation 'Set GPIO pin to low' returned an error.''))
           \<and> cache (snd (toggle self)) = cache self"
    using s0 s1 by (simp add: toggle_def)
  from d0 d1 pn p0 p1 s0 s1 t show ?thesis by blast
qed

theorem gpio_command_failure_witness:
  "fst (direction_setter 0 (mock_gpio 3 [] [[0x01]]))
     = Inl (Exception ''Operation 'set GPIO pin as output' returned an error.'')
   \<and> cache (snd (direction_setter 0 (mock_gpio 3 [] [[0x01]]))) = (None, None, 0)
   \<and> fst (toggle (mock_gpio 3 [] [[0x01]]))
       = Inl (Exception ''Operation 'Set GPIO pin to high' returned an error.'')
   \<and> cache (snd (toggle (mock_gpio 3 [] [[0x01]]))) = (None, None, 0)"
  using gpio_command_failure
          [of "mock_gpio 3 [] [[0x01]]" "mock_port [] [[0x01]]" 3 "0x01" "[]"]
  by (simp add: mock_gpio_def mock_port_def response_def cache_def)

text \<open>
  C8. When the device answers with the success status, setting the direction to 0
  (output) leaves \<open>direction_status = 1\<close> and setting it to 1 (input) leaves
  \<open>direction_status = 0\<close>; any other value raises \<open>ValueError\<close> and the object, its
  transport included, is unchanged: nothing has been written.
\<close>

theorem direction_setter_inverts:
  assumes "serial_instance self = Some p" and "gpio_pin self = Some pin"
    and "0 \<le> pin" and "pin < 256" and "response p = 0 # rest"
  shows "direction_setter 0 self
           = (Inr (),
              self\<lparr>serial_instance :=
                     Some ((port_write [0x02, 0x00, 0x08, word_of_int pin, 0x01] p)
                             \<lparr>in_buf := rest\<rparr>),
                   direction_status := Some 1\<rparr>)
       \<and> direction_setter 1 self
           = (Inr (),
              self\<lparr>serial_instance :=
                     Some ((port_write [0x02, 0x00, 0x08, word_of_int pin, 0x02] p)
                             \<lparr>in_buf := rest\<rparr>),
                   direction_status := Some 0\<rparr>)
       \<and> (direction \<notin> {0, 1} \<longrightarrow>
            direction_setter direction self
              = (Inl (ValueError
                   ''Invalid pin direction, the value should be 0 for output or 1 for input.''),
                 self))"
  by (simp add: direction_setter_def and_then_def send_operation_code_success[OF assms]
        OPERATION_OUTPUT_def OPERATION_INPUT_def)

theorem direction_setter_inverts_witness:
  "direction_status (snd (direction_setter 0 (mock_gpio 3 [] [[0x00]]))) = Some 1
   \<and> direction_status (snd (direction_setter 1 (mock_gpio 3 [] [[0x00]]))) = Some 0
   \<and> direction_setter 2 (mock_gpio 3 [] [[0x00]])
       = (Inl (ValueError
            ''Invalid pin direction, the value should be 0 for output or 1 for input.''),
          mock_gpio 3 [] [[0x00]])"
  using direction_setter_inverts
          [of "mock_gpio 3 [] [[0x00]]" "mock_port [] [[0x00]]" 3 "[]" 2]
  by (simp add: mock_gpio_def mock_port_def response_def)

text \<open>
  C7. \<open>GPIO.read\<close> on a device that answers the command frame with the status \<open>0x00\<close>
  and nothing else: the read of the pin level returns no bytes, and \<open>read\<close> returns that
  empty byte string; no exception is raised.
\<close>

theorem gpio_read_returns_empty:
  "read (mock_gpio 3 [] [[0x00]])
     = (Inr [],
        \<lparr>serial_instance =
           Some \<lparr>is_open = True, timeout = Some 1, in_buf = [],
                 written = [[0x02, 0x00, 0x08, 0x03, 0x08]], replies = []\<rparr>,
         logger = [], gpio_pin = Some 3, direction_status = None,
         pull_status = None, pin_status = 0\<rparr>)"
  by (simp add: read_def and_then_def send_operation_code_def bytes_of_int_def serial_write_def
        serial_read_def read_response_code_def port_read_def port_write_def pack_H_def
        OPCODE_def OPERATION_READ_PIN_def mock_gpio_def mock_port_def Let_def)

section \<open>Mode detection\<close>

lemma detect_current_mode_binary:
  assumes "serial_instance self = Some p" and "in_buf p = []"
    and "replies p = [] # (0x00 # pack_L (length v) @ v) # rs"
    and "v \<noteq> []" and "length v < 2 ^ 32"
  shows "detect_current_mode self
           = (Inr ''b'',
              self\<lparr>serial_instance :=
                Some (p\<lparr>written := written p @ [[0x0a], probe_completion],
                        in_buf := [], replies := rs\<rparr>)\<rparr>)"
proof -
  let ?w = "written p @ [[0x0a], probe_completion]"
  let ?p3 = "p\<lparr>written := ?w, replies := rs, in_buf := pack_L (length v) @ v\<rparr>"
  let ?self3 = "self\<lparr>serial_instance := Some ?p3\<rparr>"
  have chunk: "read_sized_chunk ''Detect current mode'' ?self3
                 = (Inr (length v, v),
                    ?self3\<lparr>serial_instance := Some (?p3\<lparr>in_buf := []\<rparr>)\<rparr>)"
    using assms(4,5) by (intro read_sized_chunk_encoded[where rest = "[]"]) simp_all
  have data: "read_data None ''Detect current mode'' ?self3
                = (Inr v, ?self3\<lparr>serial_instance := Some (?p3\<lparr>in_buf := []\<rparr>)\<rparr>)"
    using chunk by (simp add: read_data_def)
  show ?thesis
    using assms(1,2,3) data
    by (simp add: detect_current_mode_def and_then_def return_def serial_write_def
          serial_in_waiting_def in_waiting_def port_write_def read_response_code_def
          port_read_def Let_def)
qed

lemma binary_reply_packed:
  "[0x00, 0x01, 0x00, 0x00, 0x00, 0x41]
     = 0x00 # pack_L (length [0x41 :: byte]) @ [0x41 :: byte]"
  by (simp add: pack_L_def)

text \<open>
  C6, as the code has it. On a device in Binary mode (it sends nothing in answer to the
  probe byte, and the status \<open>0x00\<close> with one non-empty chunk in answer to the completing
  frame) every call of \<open>ensure_binary_mode\<close> probes the mode again: it writes the probe byte
  \<open>0x0A\<close> and the 12-byte completing frame, consumes the answer, never writes the
  \<open>binmode\<close> command, and returns \<open>True\<close>; nothing else of the object changes.
\<close>

theorem ensure_binary_mode_reprobes:
  assumes "serial_instance self = Some p" and "in_buf p = []"
    and "replies p = [] # (0x00 # pack_L (length v) @ v) # rs"
    and "v \<noteq> []" and "length v < 2 ^ 32"
  shows "ensure_binary_mode self
           = (Inr True,
              self\<lparr>serial_instance :=
                Some (p\<lparr>written := written p @ [[0x0a], probe_completion],
                        in_buf := [], replies := rs\<rparr>)\<rparr>)"
  by (simp add: ensure_binary_mode_def and_then_def return_def
        detect_current_mode_binary[OF assms])

theorem ensure_binary_mode_reprobes_witness:
  "ensure_binary_mode (mock_octowire [] (binary_replies @ binary_replies))
     = (Inr True,
        \<lparr>serial_instance =
           Some \<lparr>is_open = True, timeout = Some 1, in_buf = [],
                 written = [[0x0a], probe_completion], replies = binary_replies\<rparr>,
         logger = []\<rparr>)"
  using ensure_binary_mode_reprobes
          [of "mock_octowire [] (binary_replies @ binary_replies)"
              "mock_port [] (binary_replies @ binary_replies)" "[0x41]" binary_replies]
  by (simp add: mock_octowire_def mock_port_def binary_replies_def pack_L_def)

text \<open>
  C6 as stated says that a second call makes no transport writes and has no side
  effects. Two consecutive calls on a device in Binary mode: both return \<open>True\<close>, and the
  second one writes the probe byte and the completing frame again and consumes the
  device's second answer.
\<close>

theorem ensure_binary_mode_idempotent_counterexample:
  "ensure_binary_mode (mock_octowire [] (binary_replies @ binary_replies))
     = (Inr True,
        \<lparr>serial_instance =
           Some \<lparr>is_open = True, timeout = Some 1, in_buf = [],
                 written = [[0x0a], probe_completion], replies = binary_replies\<rparr>,
         logger = []\<rparr>)
   \<and> ensure_binary_mode
       \<lparr>serial_instance =
          Some \<lparr>is_open = True, timeout = Some 1, in_buf = [],
                written = [[0x0a], probe_completion], replies = binary_replies\<rparr>,
        logger = []\<rparr>
     = (Inr True,
        \<lparr>serial_instance =
           Some \<lparr>is_open = True, timeout = Some 1, in_buf = [],
                 written = [[0x0a], probe_completion, [0x0a], probe_completion],
                 replies = []\<rparr>,
         logger = []\<rparr>)"
proof -
  have v: "[0x00, 0x01, 0x00, 0x00, 0x00, 0x41] = 0x00 # pack_L (length [0x41 :: byte]) @ [0x41 :: byte]"
    by (simp add: pack_L_def)
  have 1: "ensure_binary_mode (mock_octowire [] (binary_replies @ binary_replies))
     = (Inr True,
        \<lparr>serial_instance =
           Some \<lparr>is_open = True, timeout = Some 1, in_buf = [],
                 written = [[0x0a], probe_completion], replies = binary_replies\<rparr>,
         logger = []\<rparr>)"
    by (simp add: ensure_binary_mode_def and_then_def return_def mock_octowire_def mock_port_def
          detect_current_mode_binary[where v = "[0x41]" and rs = binary_replies]
          binary_replies_def v)
  have 2: "ensure_binary_mode
       \<lparr>serial_instance =
          Some \<lparr>is_open = True, timeout = Some 1, in_buf = [],
                written = [[0x0a], probe_completion], replies = binary_replies\<rparr>,
        logger = []\<rparr>
     = (Inr True,
        \<lparr>serial_instance =
           Some \<lparr>is_open = True, timeout = Some 1, in_buf = [],
                 written = [[0x0a], probe_completion, [0x0a], probe_completion],
                 replies = []\<rparr>,
         logger = []\<rparr>)"
    by (simp add: ensure_binary_mode_def and_then_def return_def
          detect_current_mode_binary[where v = "[0x41]" and rs = "[]"]
          binary_replies_def v)
  from 1 2 show ?thesis by simp
qed

section \<open>Construction and connectivity\<close>

text \<open>
  The pin test of the constructor rejects \<open>None\<close>, before anything is sent, and no
  integer: for every integer pin id the constructor goes on to the mode negotiation.
\<close>

lemma gpio_init_pin_guard:
  "gpio_init si None
     = Inl (ValueError ''gpio_pin parameter should be defined between 0 and 15.'',
            \<lparr>serial_instance = si, logger = []\<rparr>)"
  "gpio_init si (Some pin)
     = (case ensure_binary_mode \<lparr>serial_instance = si, logger = []\<rparr> of
          (Inl e, self1) \<Rightarrow> Inl (e, self1)
        | (Inr ok, self1) \<Rightarrow>
            if \<not> ok then Inl (ValueError ''Unable to enter binary mode.'', self1)
            else Inr \<lparr>serial_instance = serial_instance self1, logger = logger self1,
                      gpio_pin = Some pin, direction_status = None,
                      pull_status = None, pin_status = 0\<rparr>)"
  by (auto simp: gpio_init_def Let_def)

text \<open>
  C4. The constructor of the driver with the pin ids 16 and -1 on a device in Binary
  mode: no \<open>ValueError\<close> is raised, the mode probe is written to the transport, and the
  driver is constructed holding the out-of-range pin id.
\<close>

theorem gpio_init_accepts_out_of_range_pin:
  "gpio_init (Some (mock_port [] binary_replies)) (Some 16)
     = Inr \<lparr>serial_instance =
               Some \<lparr>is_open = True, timeout = Some 1, in_buf = [],
                     written = [[0x0a], probe_completion], replies = []\<rparr>,
            logger = [], gpio_pin = Some 16, direction_status = None,
            pull_status = None, pin_status = 0\<rparr>
   \<and> gpio_init (Some (mock_port [] binary_replies)) (Some (- 1))
     = Inr \<lparr>serial_instance =
               Some \<lparr>is_open = True, timeout = Some 1, in_buf = [],
                     written = [[0x0a], probe_completion], replies = []\<rparr>,
            logger = [], gpio_pin = Some (- 1), direction_status = None,
            pull_status = None, pin_status = 0\<rparr>"
  by (simp add: gpio_init_def ensure_binary_mode_def and_then_def return_def mock_port_def
        detect_current_mode_binary[where v = "[0x41]" and rs = "[]"]
        binary_replies_def binary_reply_packed)

text \<open>
  \<open>is_connected\<close> on a handle that is not a serial instance, and on a closed port: it
  logs its message and returns \<open>False\<close>, without any transport I/O.
\<close>

lemma is_connected_invalid_or_closed:
  "serial_instance self = None \<Longrightarrow>
     is_connected decode self
       = (Inr False,
          handle (''<class '' @ [CHR 0x27] @ ''NoneType'' @ [CHR 0x27] @ ''>''
                  @ '' is not a Serial instance.'') self)"
  "serial_instance self = Some p \<Longrightarrow> \<not> is_open p \<Longrightarrow>
     is_connected decode self
       = (Inr False,
          handle ''Serial port is a valid serial instance but no connection was detected.''
            self)"
  by (simp_all add: is_connected_def)

text \<open>
  C5. \<open>is_connected\<close> on an open port whose device is in Binary mode and answers the
  version command with the failure status \<open>0x01\<close>: \<open>get_octowire_version\<close> logs its
  message and returns \<open>None\<close>, and the membership test on \<open>None\<close> raises \<open>TypeError\<close>;
  \<open>is_connected\<close> does not return \<open>False\<close>.
\<close>

theorem is_connected_raises_type_error:
  "is_connected decode (mock_octowire [] (binary_replies @ binary_replies @ [[0x01]]))
     = (Inl TypeError,
        \<lparr>serial_instance =
           Some \<lparr>is_open = True, timeout = Some 1, in_buf = [],
                 written = [[0x0a], probe_completion, [0x0a], probe_completion, version_opcode],
                 replies = []\<rparr>,
         logger = [''Error while trying to get Octowire version.'']\<rparr>)"
proof -
  let ?s0 = "mock_octowire [] (binary_replies @ binary_replies @ [[0x01]])"
  let ?s1 = "\<lparr>serial_instance =
               Some \<lparr>is_open = True, timeout = Some 1, in_buf = [],
                     written = [[0x0a], probe_completion],
                     replies = binary_replies @ [[0x01]]\<rparr>,
             logger = []\<rparr>"
  let ?s2 = "\<lparr>serial_instance =
               Some \<lparr>is_open = True, timeout = Some 1, in_buf = [],
                     written = [[0x0a], probe_completion, [0x0a], probe_completion],
                     replies = [[0x01]]\<rparr>,
             logger = []\<rparr>"
  have 1: "detect_current_mode ?s0 = (Inr ''b'', ?s1)"
    by (simp add: mock_octowire_def mock_port_def binary_replies_def binary_reply_packed
          detect_current_mode_binary[where v = "[0x41]" and rs = "binary_replies @ [[0x01]]"])
  have 2: "detect_current_mode ?s1 = (Inr ''b'', ?s2)"
    by (simp add: binary_replies_def binary_reply_packed
          detect_current_mode_binary[where v = "[0x41]" and rs = "[[0x01]]"])
  have valid: "octowire_status_is_valid ?s0 = (Inr True, ?s1)"
    using 1 by (simp add: octowire_status_is_valid_def is_serial_instance_def and_then_def
                  return_def mock_octowire_def)
  have version: "get_octowire_version decode ?s0
                   = (Inr None,
                      \<lparr>serial_instance =
                         Some \<lparr>is_open = True, timeout = Some 1, in_buf = [],
                               written = [[0x0a], probe_completion, [0x0a], probe_completion,
                                          version_opcode],
                               replies = []\<rparr>,
                       logger = [''Error while trying to get Octowire version.'']\<rparr>)"
    by (simp add: get_octowire_version_def and_then_def return_def valid 2 serial_write_def
          serial_read_def port_write_def port_read_def handle_def)
  show ?thesis
    using version
    by (simp add: is_connected_def and_then_def mock_octowire_def mock_port_def)
qed

end
